theory Spec2Isabelle
  imports Main
begin

section \<open>Data model of json.go\<close>

text \<open>
  The package wraps encoding/json. \<open>Options\<close> is the flat, single-layer rule set a caller
  passes to \<open>UnmarshalX\<close>; \<open>Pedantic\<close> and \<open>Strict\<close> are declared and never read.
\<close>

record Options =
  Pedantic :: bool
  Strict :: bool
  GlobalNullNotPresent :: bool
  FailFast :: bool
  NullNotPresent :: "string list"
  Required :: "string list"
  Forbidden :: "string list"

text \<open>
  \<open>builtOptions\<close> embeds the caller's \<open>Options\<close> and adds a Go \<open>map[string]bool\<close>. Indexing a
  Go map at a key it does not hold gives the zero value, \<open>false\<close>: \<open>index_bool\<close>.
\<close>

record builtOptions =
  Options :: Options
  nullNotPresentSet :: "string \<rightharpoonup> bool"

definition index_bool :: "(string \<rightharpoonup> bool) \<Rightarrow> string \<Rightarrow> bool" where
  "index_bool m s = (case m s of None \<Rightarrow> False | Some b \<Rightarrow> b)"

datatype ValidationErrorType = MissingKey | ForbiddenKey

datatype ValidationError = ValidationError (Type: ValidationErrorType) (Key: string)

text \<open>
  A Go \<open>error\<close> returned by \<open>UnmarshalX\<close> is either an error of encoding/json, handed on as
  it is, or the package's own \<open>ErrorCollection\<close>; \<open>nil\<close> is \<open>None\<close>.
\<close>

datatype 'e error = JsonError 'e | ErrorCollection "ValidationError list"

text \<open>
  The map \<open>dest\<close> of \<open>UnmarshalX\<close> has type \<open>map[string]*json.RawMessage\<close>: a key is absent
  (\<open>None\<close>), holds the nil pointer (\<open>Some None\<close>, what encoding/json stores for \<open>null\<close>) or
  points to the raw text of its value.
\<close>

type_synonym 'r dest = "string \<rightharpoonup> 'r option"

section \<open>Operations of json.go\<close>

fun set_keys :: "string list \<Rightarrow> (string \<rightharpoonup> bool) \<Rightarrow> (string \<rightharpoonup> bool)" where
  "set_keys [] m = m"
| "set_keys (k # ks) m = set_keys ks (m(k \<mapsto> True))"

definition prepareOptions :: "Options \<Rightarrow> 'v \<Rightarrow> builtOptions" where
  "prepareOptions o' v =
     \<lparr>Options = o', nullNotPresentSet = set_keys (NullNotPresent o') Map.empty\<rparr>"

definition nullIsPresent :: "builtOptions \<Rightarrow> string \<Rightarrow> bool" where
  "nullIsPresent bo s =
     (if GlobalNullNotPresent (Options bo) then False
      else \<not> index_bool (nullNotPresentSet bo) s)"

text \<open>The closure \<open>addError\<close>: append to \<open>errors\<close>, answer \<open>cfg.FailFast\<close>.\<close>

definition addError ::
  "builtOptions \<Rightarrow> ValidationError list \<Rightarrow> ValidationError \<Rightarrow> ValidationError list \<times> bool" where
  "addError cfg errors ve = (errors @ [ve], FailFast (Options cfg))"

text \<open>The closure \<open>present\<close>, with the cases of its \<open>switch\<close> in order.\<close>

definition present :: "builtOptions \<Rightarrow> 'r dest \<Rightarrow> string \<Rightarrow> bool" where
  "present cfg dest s =
     (case dest s of
        None \<Rightarrow> False
      | Some v \<Rightarrow>
          if v = None \<and> GlobalNullNotPresent (Options cfg) then False
          else if v = None \<and> \<not> nullIsPresent cfg s then False
          else True)"

text \<open>
  The two \<open>for ... range\<close> loops. Each returns the grown \<open>errors\<close> and whether it left by
  \<open>goto done\<close>. In the first, \<open>addError\<close> is only called when \<open>present\<close> fails (\<open>&&\<close> is
  short-circuit); the second calls \<open>addError\<close> for each key of \<open>Forbidden\<close> and never
  consults \<open>dest\<close>.
\<close>

fun required_loop ::
  "builtOptions \<Rightarrow> 'r dest \<Rightarrow> string list \<Rightarrow> ValidationError list
     \<Rightarrow> ValidationError list \<times> bool" where
  "required_loop cfg dest [] errors = (errors, False)"
| "required_loop cfg dest (reqKey # ks) errors =
     (if \<not> present cfg dest reqKey then
        (case addError cfg errors (ValidationError MissingKey reqKey) of
           (errors', stop) \<Rightarrow>
             if stop then (errors', True) else required_loop cfg dest ks errors')
      else required_loop cfg dest ks errors)"

fun forbidden_loop ::
  "builtOptions \<Rightarrow> string list \<Rightarrow> ValidationError list \<Rightarrow> ValidationError list \<times> bool" where
  "forbidden_loop cfg [] errors = (errors, False)"
| "forbidden_loop cfg (forbKey # ks) errors =
     (case addError cfg errors (ValidationError ForbiddenKey forbKey) of
        (errors', stop) \<Rightarrow>
          if stop then (errors', True) else forbidden_loop cfg ks errors')"

text \<open>The value of \<open>errors\<close> at the label \<open>done\<close>.\<close>

definition collect_errors :: "builtOptions \<Rightarrow> 'r dest \<Rightarrow> ValidationError list" where
  "collect_errors cfg dest =
     (case required_loop cfg dest (Required (Options cfg)) [] of
        (errors, done) \<Rightarrow>
          if done then errors
          else fst (forbidden_loop cfg (Forbidden (Options cfg)) errors))"

text \<open>
  \<open>UnmarshalX\<close>. The two uses of the external \<open>json.Unmarshal\<close> are parameters: \<open>um\<close> decodes
  \<open>data\<close> into the fresh string-keyed map, \<open>ud\<close> decodes \<open>data\<close> into the caller's
  destination \<open>v\<close> and returns its error with the destination as it leaves it. The
  result is the returned \<open>error\<close> and the state of the destination.
\<close>

definition plain :: "'e option \<times> 'v \<Rightarrow> 'e error option \<times> 'v" where
  "plain r = (map_option JsonError (fst r), snd r)"

definition UnmarshalX ::
  "('d \<Rightarrow> 'e + 'r dest) \<Rightarrow> ('d \<Rightarrow> 'v \<Rightarrow> 'e option \<times> 'v) \<Rightarrow> 'd \<Rightarrow> 'v \<Rightarrow> Options option
     \<Rightarrow> 'e error option \<times> 'v" where
  "UnmarshalX um ud data v pcfg =
     (case pcfg of
        None \<Rightarrow> plain (ud data v)
      | Some o' \<Rightarrow>
          (case um data of
             Inl err \<Rightarrow> (Some (JsonError err), v)
           | Inr dest \<Rightarrow>
               (let cfg = prepareOptions o' v;
                    errors = collect_errors cfg dest
                in if length errors \<noteq> 0 then (Some (ErrorCollection errors), v)
                   else plain (ud data v))))"

definition Unmarshal ::
  "('d \<Rightarrow> 'e + 'r dest) \<Rightarrow> ('d \<Rightarrow> 'v \<Rightarrow> 'e option \<times> 'v) \<Rightarrow> 'd \<Rightarrow> 'v \<Rightarrow> 'e error option \<times> 'v" where
  "Unmarshal um ud data v = UnmarshalX um ud data v None"

section \<open>The encoding/json primitive on the inputs used below\<close>

text \<open>
  The byte input, as encoding/json's scanner sees it: not valid JSON, or the text of one
  JSON value. An object keeps its members in the order written, duplicates included.
\<close>

datatype json =
  JNull | JBool bool | JNumber string | JString string
| JArray "json list" | JObject "(string \<times> json) list"

datatype data = Invalid | Valid json

datatype json_error = SyntaxError | UnmarshalTypeError string

text \<open>
  \<open>json.Unmarshal(data, &dest)\<close> for \<open>dest\<close> of type \<open>map[string]*json.RawMessage\<close>, as the
  documentation of encoding/json has it: invalid text is a syntax error; an object
  fills the map member by member, a later duplicate overwriting an earlier one, \<open>null\<close>
  stored as the nil pointer and every other value as its raw text; the value \<open>null\<close>
  sets the map to nil without an error (a nil map answers every lookup with "absent");
  an array, string, number or boolean is an \<open>UnmarshalTypeError\<close> naming its kind.
\<close>

fun store_members :: "(string \<times> json) list \<Rightarrow> json dest \<Rightarrow> json dest" where
  "store_members [] m = m"
| "store_members ((k, x) # kvs) m =
     store_members kvs (m(k \<mapsto> (if x = JNull then None else Some x)))"

fun json_Unmarshal_map :: "data \<Rightarrow> json_error + json dest" where
  "json_Unmarshal_map Invalid = Inl SyntaxError"
| "json_Unmarshal_map (Valid (JObject kvs)) = Inr (store_members kvs Map.empty)"
| "json_Unmarshal_map (Valid JNull) = Inr Map.empty"
| "json_Unmarshal_map (Valid (JArray xs)) = Inl (UnmarshalTypeError ''array'')"
| "json_Unmarshal_map (Valid (JString s)) = Inl (UnmarshalTypeError ''string'')"
| "json_Unmarshal_map (Valid (JNumber n)) = Inl (UnmarshalTypeError ''number'')"
| "json_Unmarshal_map (Valid (JBool b)) = Inl (UnmarshalTypeError ''bool'')"

text \<open>
  The destination of the examples is a \<open>json.RawMessage\<close>, nil before the call.
  \<open>json.Unmarshal(data, &v)\<close> copies valid text of any kind into it; invalid text is a
  syntax error and leaves it alone.
\<close>

fun json_Unmarshal_raw :: "data \<Rightarrow> json option \<Rightarrow> json_error option \<times> json option" where
  "json_Unmarshal_raw Invalid v = (Some SyntaxError, v)"
| "json_Unmarshal_raw (Valid x) v = (None, Some x)"

text \<open>The zero value \<open>Options{}\<close>: a non-nil \<open>Options\<close> with no rule configured.\<close>

definition zero_Options :: Options where
  "zero_Options =
     \<lparr>Pedantic = False, Strict = False, GlobalNullNotPresent = False, FailFast = False,
      NullNotPresent = [], Required = [], Forbidden = []\<rparr>"

section \<open>The loops in closed form\<close>

lemma set_keys_lookup:
  "index_bool (set_keys ks m) s \<longleftrightarrow> s \<in> set ks \<or> index_bool m s"
  by (induction ks arbitrary: m) (auto simp: index_bool_def)

lemma index_bool_empty: "index_bool Map.empty s = False"
  by (simp add: index_bool_def)

lemma nullNotPresentSet_prepareOptions:
  "index_bool (nullNotPresentSet (prepareOptions o' v)) s \<longleftrightarrow> s \<in> set (NullNotPresent o')"
  by (simp add: prepareOptions_def set_keys_lookup index_bool_empty)

lemma Options_prepareOptions [simp]: "Options (prepareOptions o' v) = o'"
  by (simp add: prepareOptions_def)

lemma present_prepareOptions:
  "present (prepareOptions o' v) dest s \<longleftrightarrow>
     (case dest s of
        None \<Rightarrow> False
      | Some None \<Rightarrow> \<not> GlobalNullNotPresent o' \<and> s \<notin> set (NullNotPresent o')
      | Some (Some r) \<Rightarrow> True)"
  by (simp add: present_def nullIsPresent_def nullNotPresentSet_prepareOptions
      split: option.splits)

lemma required_loop_collect:
  "\<not> FailFast (Options cfg) \<Longrightarrow>
   required_loop cfg dest ks errors =
     (errors @ map (ValidationError MissingKey) (filter (\<lambda>k. \<not> present cfg dest k) ks), False)"
  by (induction ks arbitrary: errors) (simp_all add: addError_def)

lemma forbidden_loop_collect:
  "\<not> FailFast (Options cfg) \<Longrightarrow>
   forbidden_loop cfg ks errors = (errors @ map (ValidationError ForbiddenKey) ks, False)"
  by (induction ks arbitrary: errors) (simp_all add: addError_def)

lemma required_loop_failfast:
  "FailFast (Options cfg) \<Longrightarrow>
   required_loop cfg dest ks errors =
     (case filter (\<lambda>k. \<not> present cfg dest k) ks of
        [] \<Rightarrow> (errors, False)
      | k # rest \<Rightarrow> (errors @ [ValidationError MissingKey k], True))"
  by (induction ks arbitrary: errors) (simp_all add: addError_def)

lemma forbidden_loop_failfast:
  "FailFast (Options cfg) \<Longrightarrow>
   forbidden_loop cfg ks errors =
     (case ks of
        [] \<Rightarrow> (errors, False)
      | k # rest \<Rightarrow> (errors @ [ValidationError ForbiddenKey k], True))"
  by (cases ks) (simp_all add: addError_def)

lemma collect_errors_all:
  "\<not> FailFast (Options cfg) \<Longrightarrow>
   collect_errors cfg dest =
     map (ValidationError MissingKey) (filter (\<lambda>k. \<not> present cfg dest k) (Required (Options cfg)))
     @ map (ValidationError ForbiddenKey) (Forbidden (Options cfg))"
  by (simp add: collect_errors_def required_loop_collect forbidden_loop_collect)

lemma collect_errors_first:
  "FailFast (Options cfg) \<Longrightarrow>
   collect_errors cfg dest =
     take 1 (map (ValidationError MissingKey)
               (filter (\<lambda>k. \<not> present cfg dest k) (Required (Options cfg)))
             @ map (ValidationError ForbiddenKey) (Forbidden (Options cfg)))"
  by (simp add: collect_errors_def required_loop_failfast forbidden_loop_failfast
      split: list.splits)

lemma present_shape:
  assumes "\<forall>k. map_option (\<lambda>r. r = None) (dest k) = map_option (\<lambda>r. r = None) (dest' k)"
  shows "present cfg dest s = present cfg dest' s"
proof -
  from assms have "map_option (\<lambda>r. r = None) (dest s) = map_option (\<lambda>r. r = None) (dest' s)"
    by blast
  then show ?thesis
    by (cases "dest s"; cases "dest' s") (auto simp: present_def)
qed

lemma collect_errors_shape:
  assumes "\<forall>k. map_option (\<lambda>r. r = None) (dest k) = map_option (\<lambda>r. r = None) (dest' k)"
  shows "collect_errors cfg dest = collect_errors cfg dest'"
proof -
  have "(\<lambda>k. \<not> present cfg dest k) = (\<lambda>k. \<not> present cfg dest' k)"
    using present_shape [OF assms] by blast
  then show ?thesis
    by (cases "FailFast (Options cfg)") (simp_all add: collect_errors_all collect_errors_first)
qed

lemma collect_errors_keys:
  "e \<in> set (collect_errors cfg dest) \<Longrightarrow>
     (Type e = MissingKey \<and> Key e \<in> set (Required (Options cfg))) \<or>
     (Type e = ForbiddenKey \<and> Key e \<in> set (Forbidden (Options cfg)))"
proof (cases "FailFast (Options cfg)")
  case False
  assume "e \<in> set (collect_errors cfg dest)"
  with False show ?thesis by (auto simp: collect_errors_all)
next
  case True
  assume "e \<in> set (collect_errors cfg dest)"
  then have "e \<in> set (map (ValidationError MissingKey)
               (filter (\<lambda>k. \<not> present cfg dest k) (Required (Options cfg)))
             @ map (ValidationError ForbiddenKey) (Forbidden (Options cfg)))"
    by (simp only: collect_errors_first [OF True]) (rule in_set_takeD)
  then show ?thesis by auto
qed

lemma UnmarshalX_ErrorCollection:
  assumes "um data = Inr dest"
  shows "fst (UnmarshalX um ud data v (Some o')) = Some (ErrorCollection es) \<longleftrightarrow>
           es = collect_errors (prepareOptions o' v) dest \<and> es \<noteq> []"
  using assms by (auto simp: UnmarshalX_def plain_def Let_def)

lemma prepareOptions_dest: "prepareOptions o' v = prepareOptions o' v'"
  by (simp add: prepareOptions_def)

lemma present_FailFast:
  "present (prepareOptions (o'\<lparr>FailFast := b\<rparr>) v) dest k = present (prepareOptions o' v) dest k"
  by (simp add: present_prepareOptions split: option.splits)

lemma take_1_hd: "xs \<noteq> [] \<Longrightarrow> take 1 xs = [hd xs]"
  by (cases xs) simp_all

lemma filter_first_failure:
  "k \<in> set ks \<Longrightarrow> \<not> P k \<Longrightarrow> \<forall>j \<in> set (takeWhile (\<lambda>j. j \<noteq> k) ks). P j \<Longrightarrow>
     \<exists>rest. filter (\<lambda>j. \<not> P j) ks = k # rest"
  by (induction ks) auto

lemma present_absent: "dest k = None \<Longrightarrow> \<not> present cfg dest k"
  by (simp add: present_def)

lemmas run_defs = UnmarshalX_def Unmarshal_def collect_errors_def prepareOptions_def present_def
  nullIsPresent_def index_bool_def addError_def zero_Options_def plain_def

section \<open>Forbidden keys\<close>

text \<open>
  C1. The claim: a ForbiddenKey violation for \<open>k\<close> is emitted exactly when \<open>k\<close> is listed in
  \<open>Forbidden\<close> and exists in the parsed object, so a forbidden key that the input does
  not hold yields no violation. The second loop of \<open>UnmarshalX\<close> never looks at the parsed
  object: on the input \<open>{}\<close> with \<open>Forbidden = ["bar"]\<close> the call returns the violation
  ForbiddenKey "bar" although the input has no key "bar", and the destination is not
  decoded.
\<close>

theorem UnmarshalX_forbidden_key_not_in_input:
  "UnmarshalX json_Unmarshal_map json_Unmarshal_raw (Valid (JObject [])) None
     (Some (zero_Options\<lparr>Forbidden := [''bar'']\<rparr>))
   = (Some (ErrorCollection [ValidationError ForbiddenKey ''bar'']), None)"
  by (simp add: run_defs)

section \<open>One layer only\<close>

text \<open>
  C2. The claim: a violation inside a nested object is reported with a path that holds
  the outer field name and the inner key. \<open>Options\<close> has no rules for nested fields and a
  \<open>ValidationError\<close> has a \<open>Type\<close> and one \<open>Key\<close>, no path. With \<open>Required = ["zip"]\<close> the
  inputs \<open>{"address": {}}\<close> and \<open>{"address": {"zip": "12345"}}\<close> both give the single
  violation MissingKey "zip": the rule is applied to the outermost object, the nested
  object is not read, and nothing in the violation names "address".
\<close>

theorem nested_violation_not_path_qualified:
  "UnmarshalX json_Unmarshal_map json_Unmarshal_raw
     (Valid (JObject [(''address'', JObject [])])) None
     (Some (zero_Options\<lparr>Required := [''zip'']\<rparr>))
   = (Some (ErrorCollection [ValidationError MissingKey ''zip'']), None)
   \<and> UnmarshalX json_Unmarshal_map json_Unmarshal_raw
     (Valid (JObject [(''address'', JObject [(''zip'', JString ''12345'')])])) None
     (Some (zero_Options\<lparr>Required := [''zip'']\<rparr>))
   = (Some (ErrorCollection [ValidationError MissingKey ''zip'']), None)"
  by (simp add: run_defs)

text \<open>
  C2, as amended. Validation is single-layer. When a call returns an \<open>ErrorCollection\<close>,
  every input whose outermost object has the same keys, null at the same keys, gives
  the same \<open>ErrorCollection\<close> (whatever lies inside the values, whatever the destination
  and its decoder); and each violation is MissingKey with a key of \<open>Required\<close> or
  ForbiddenKey with a key of \<open>Forbidden\<close>.
\<close>

theorem UnmarshalX_single_layer:
  assumes "um data = Inr dest" and "um data' = Inr dest'"
    and "\<forall>k. map_option (\<lambda>r. r = None) (dest k) = map_option (\<lambda>r. r = None) (dest' k)"
    and "fst (UnmarshalX um ud data v (Some o')) = Some (ErrorCollection es)"
  shows "UnmarshalX um ud' data' v' (Some o') = (Some (ErrorCollection es), v') \<and>
         (\<forall>e \<in> set es. (Type e = MissingKey \<and> Key e \<in> set (Required o')) \<or>
                        (Type e = ForbiddenKey \<and> Key e \<in> set (Forbidden o')))"
proof -
  from assms(1,4) have es: "es = collect_errors (prepareOptions o' v) dest" "es \<noteq> []"
    using UnmarshalX_ErrorCollection [of um data dest ud v o' es] by blast+
  have "collect_errors (prepareOptions o' v') dest' = es"
    using collect_errors_shape [OF assms(3)] es(1) prepareOptions_dest [of o' v v'] by simp
  with es(2) assms(2) have "UnmarshalX um ud' data' v' (Some o') = (Some (ErrorCollection es), v')"
    by (simp add: UnmarshalX_def Let_def)
  moreover have "\<forall>e \<in> set es. (Type e = MissingKey \<and> Key e \<in> set (Required o')) \<or>
                        (Type e = ForbiddenKey \<and> Key e \<in> set (Forbidden o'))"
    using collect_errors_keys [of _ "prepareOptions o' v" dest] es(1) by auto
  ultimately show ?thesis by blast
qed

theorem UnmarshalX_single_layer_witness:
  "UnmarshalX json_Unmarshal_map json_Unmarshal_raw
     (Valid (JObject [(''address'', JObject [(''zip'', JString ''12345'')])])) (Some JNull)
     (Some (zero_Options\<lparr>Required := [''zip'']\<rparr>))
   = (Some (ErrorCollection [ValidationError MissingKey ''zip'']), Some JNull)"
proof -
  have h1: "json_Unmarshal_map (Valid (JObject [(''address'', JObject [])]))
              = Inr (store_members [(''address'', JObject [])] Map.empty)"
    by simp
  have h2: "json_Unmarshal_map (Valid (JObject [(''address'', JObject [(''zip'', JString ''12345'')])]))
              = Inr (store_members [(''address'', JObject [(''zip'', JString ''12345'')])] Map.empty)"
    by simp
  have h3: "\<forall>k. map_option (\<lambda>r. r = None) (store_members [(''address'', JObject [])] Map.empty k)
              = map_option (\<lambda>r. r = None)
                  (store_members [(''address'', JObject [(''zip'', JString ''12345'')])] Map.empty k)"
    by simp
  have h4: "fst (UnmarshalX json_Unmarshal_map json_Unmarshal_raw
                   (Valid (JObject [(''address'', JObject [])])) None
                   (Some (zero_Options\<lparr>Required := [''zip'']\<rparr>)))
              = Some (ErrorCollection [ValidationError MissingKey ''zip''])"
    by (simp add: run_defs)
  show ?thesis
    using h1 h2 h3 h4
      UnmarshalX_single_layer
        [where um = json_Unmarshal_map and ud = json_Unmarshal_raw
           and ud' = json_Unmarshal_raw and v = None and v' = "Some JNull"
           and data = "Valid (JObject [(''address'', JObject [])])"
           and data' = "Valid (JObject [(''address'', JObject [(''zip'', JString ''12345'')])])"
           and dest = "store_members [(''address'', JObject [])] Map.empty"
           and dest' = "store_members [(''address'', JObject [(''zip'', JString ''12345'')])]
                          Map.empty"
           and o' = "zero_Options\<lparr>Required := [''zip'']\<rparr>"
           and es = "[ValidationError MissingKey ''zip'']"]
    by blast
qed

section \<open>Violations withhold the decode\<close>

text \<open>
  C3. Whenever the errors collected by the two loops are not empty, \<open>UnmarshalX\<close> returns
  them as an \<open>ErrorCollection\<close> and the destination is the one passed in: the result does
  not mention the typed decoder \<open>ud\<close>, so no decode, partial or whole, takes place.
\<close>

theorem UnmarshalX_errors_withhold_decode:
  assumes "um data = Inr dest" and "collect_errors (prepareOptions o' v) dest \<noteq> []"
  shows "UnmarshalX um ud data v (Some o') =
           (Some (ErrorCollection (collect_errors (prepareOptions o' v) dest)), v)"
  using assms by (simp add: UnmarshalX_def Let_def)

theorem UnmarshalX_errors_withhold_decode_witness:
  "UnmarshalX json_Unmarshal_map json_Unmarshal_raw
     (Valid (JObject [(''bar'', JNumber ''4444'')])) None
     (Some (zero_Options\<lparr>Required := [''foo''], Forbidden := [''bar'']\<rparr>))
   = (Some (ErrorCollection
        [ValidationError MissingKey ''foo'', ValidationError ForbiddenKey ''bar'']), None)"
proof -
  have h1: "json_Unmarshal_map (Valid (JObject [(''bar'', JNumber ''4444'')]))
              = Inr (store_members [(''bar'', JNumber ''4444'')] Map.empty)"
    by simp
  have h2: "collect_errors
              (prepareOptions (zero_Options\<lparr>Required := [''foo''], Forbidden := [''bar'']\<rparr>)
                 (None :: json option))
              (store_members [(''bar'', JNumber ''4444'')] Map.empty) \<noteq> []"
    by (simp add: run_defs)
  have "UnmarshalX json_Unmarshal_map json_Unmarshal_raw
          (Valid (JObject [(''bar'', JNumber ''4444'')])) None
          (Some (zero_Options\<lparr>Required := [''foo''], Forbidden := [''bar'']\<rparr>))
        = (Some (ErrorCollection (collect_errors
             (prepareOptions (zero_Options\<lparr>Required := [''foo''], Forbidden := [''bar'']\<rparr>)
                (None :: json option))
             (store_members [(''bar'', JNumber ''4444'')] Map.empty))), None)"
    using h1 h2
      UnmarshalX_errors_withhold_decode
        [where um = json_Unmarshal_map and ud = json_Unmarshal_raw and v = None
           and data = "Valid (JObject [(''bar'', JNumber ''4444'')])"
           and dest = "store_members [(''bar'', JNumber ''4444'')] Map.empty"
           and o' = "zero_Options\<lparr>Required := [''foo''], Forbidden := [''bar'']\<rparr>"]
    by blast
  then show ?thesis
    by (simp add: collect_errors_def prepareOptions_def present_def nullIsPresent_def
        index_bool_def addError_def zero_Options_def)
qed

section \<open>No options, and input that does not parse\<close>

text \<open>
  C7. With nil options \<open>UnmarshalX\<close>, and so \<open>Unmarshal\<close>, is the plain decode of
  encoding/json: the same error (or nil) and the same destination.
\<close>

theorem UnmarshalX_nil_options_plain_decode:
  "UnmarshalX um ud data v None = plain (ud data v) \<and>
   Unmarshal um ud data v = plain (ud data v)"
  by (simp add: UnmarshalX_def Unmarshal_def)

text \<open>
  C8. When decoding into the string-keyed map fails, \<open>UnmarshalX\<close> with options returns
  that error as it is, never an \<open>ErrorCollection\<close>; neither loop runs and the destination
  is not touched.
\<close>

theorem UnmarshalX_parse_error_unwrapped:
  assumes "um data = Inl err"
  shows "UnmarshalX um ud data v (Some o') = (Some (JsonError err), v) \<and>
         (\<forall>es. fst (UnmarshalX um ud data v (Some o')) \<noteq> Some (ErrorCollection es))"
  using assms by (simp add: UnmarshalX_def)

theorem UnmarshalX_parse_error_unwrapped_witness:
  "UnmarshalX json_Unmarshal_map json_Unmarshal_raw Invalid None
     (Some (zero_Options\<lparr>Required := [''foo''], Forbidden := [''bar'']\<rparr>))
   = (Some (JsonError SyntaxError), None)"
proof -
  have h: "json_Unmarshal_map Invalid = Inl SyntaxError"
    by simp
  show ?thesis
    using h
      UnmarshalX_parse_error_unwrapped
        [where um = json_Unmarshal_map and ud = json_Unmarshal_raw and v = None
           and data = Invalid and err = SyntaxError
           and o' = "zero_Options\<lparr>Required := [''foo''], Forbidden := [''bar'']\<rparr>"]
    by blast
qed

section \<open>Fail-fast\<close>

text \<open>
  C4. With \<open>FailFast\<close> set, on an input for which the same options without \<open>FailFast\<close>
  collect at least one violation, \<open>UnmarshalX\<close> returns an \<open>ErrorCollection\<close> of exactly one
  entry and leaves the destination alone. The entry is the first one of the full list,
  which runs through \<open>Required\<close> in declaration order before \<open>Forbidden\<close> in declaration
  order.
\<close>

theorem UnmarshalX_FailFast_first_violation:
  assumes "FailFast o'" and "um data = Inr dest"
    and "collect_errors (prepareOptions (o'\<lparr>FailFast := False\<rparr>) v) dest \<noteq> []"
  shows "UnmarshalX um ud data v (Some o') =
           (Some (ErrorCollection
              [hd (collect_errors (prepareOptions (o'\<lparr>FailFast := False\<rparr>) v) dest)]), v)
         \<and> hd (collect_errors (prepareOptions (o'\<lparr>FailFast := False\<rparr>) v) dest) =
           hd (map (ValidationError MissingKey)
                 (filter (\<lambda>k. \<not> present (prepareOptions o' v) dest k) (Required o'))
               @ map (ValidationError ForbiddenKey) (Forbidden o'))"
proof -
  let ?all = "map (ValidationError MissingKey)
                 (filter (\<lambda>k. \<not> present (prepareOptions o' v) dest k) (Required o'))
               @ map (ValidationError ForbiddenKey) (Forbidden o')"
  have slow: "collect_errors (prepareOptions (o'\<lparr>FailFast := False\<rparr>) v) dest = ?all"
    by (simp add: collect_errors_all present_FailFast)
  have fast: "collect_errors (prepareOptions o' v) dest = take 1 ?all"
    using assms(1) by (simp add: collect_errors_first)
  from assms(3) slow have ne: "?all \<noteq> []" by simp
  then have "take 1 ?all = [hd ?all]" by (rule take_1_hd)
  with fast have "collect_errors (prepareOptions o' v) dest = [hd ?all]" by simp
  with assms(2) have "UnmarshalX um ud data v (Some o') = (Some (ErrorCollection [hd ?all]), v)"
    by (simp add: UnmarshalX_def Let_def)
  with slow show ?thesis by simp
qed

theorem UnmarshalX_FailFast_first_violation_witness:
  "UnmarshalX json_Unmarshal_map json_Unmarshal_raw
     (Valid (JObject [(''bar'', JNumber ''4444'')])) None
     (Some (zero_Options\<lparr>FailFast := True, Required := [''foo''], Forbidden := [''bar'']\<rparr>))
   = (Some (ErrorCollection [ValidationError MissingKey ''foo'']), None)"
proof -
  let ?o = "zero_Options\<lparr>FailFast := True, Required := [''foo''], Forbidden := [''bar'']\<rparr>"
  let ?dest = "store_members [(''bar'', JNumber ''4444'')] Map.empty"
  have h1: "FailFast ?o"
    by (simp add: zero_Options_def)
  have h2: "json_Unmarshal_map (Valid (JObject [(''bar'', JNumber ''4444'')])) = Inr ?dest"
    by simp
  have h3: "collect_errors (prepareOptions (?o\<lparr>FailFast := False\<rparr>) (None :: json option)) ?dest
              = [ValidationError MissingKey ''foo'', ValidationError ForbiddenKey ''bar'']"
    by (simp add: run_defs)
  have "UnmarshalX json_Unmarshal_map json_Unmarshal_raw
          (Valid (JObject [(''bar'', JNumber ''4444'')])) None (Some ?o)
        = (Some (ErrorCollection
             [hd (collect_errors (prepareOptions (?o\<lparr>FailFast := False\<rparr>) (None :: json option))
                    ?dest)]), None)"
    using h1 h2 h3
      UnmarshalX_FailFast_first_violation [where um = json_Unmarshal_map and ud = json_Unmarshal_raw and v = None
            and data = "Valid (JObject [(''bar'', JNumber ''4444'')])"
            and dest = ?dest and o' = ?o]
    by simp
  then show ?thesis
    by (simp only: h3 list.sel)
qed

section \<open>Null as presence or absence\<close>

text \<open>
  C5. The claim: on \<open>{"k": null}\<close> with \<open>k\<close> in \<open>Required\<close> and in \<open>NullNotPresent\<close>, a MissingKey
  violation for \<open>k\<close> is emitted. With \<open>FailFast\<close> set and \<open>Required = ["a", "k"]\<close> the first
  loop leaves at the missing key "a": the call returns the single violation
  MissingKey "a" and none for "k".
\<close>

theorem null_key_after_FailFast_stop:
  "UnmarshalX json_Unmarshal_map json_Unmarshal_raw (Valid (JObject [(''k'', JNull)])) None
     (Some (zero_Options\<lparr>FailFast := True, NullNotPresent := [''k''], Required := [''a'', ''k'']\<rparr>))
   = (Some (ErrorCollection [ValidationError MissingKey ''a'']), None)"
  by (simp add: run_defs)

text \<open>
  C5, as amended. Let the parsed object hold \<open>k\<close> with the value null, \<open>k\<close> in \<open>Required\<close>.
  If \<open>GlobalNullNotPresent\<close> is false and \<open>k\<close> is not in \<open>NullNotPresent\<close>, then \<open>k\<close> counts as
  present and no returned \<open>ErrorCollection\<close> holds MissingKey \<open>k\<close>. If \<open>k\<close> is in
  \<open>NullNotPresent\<close>, or \<open>GlobalNullNotPresent\<close> is true (whatever \<open>NullNotPresent\<close> holds), then
  \<open>k\<close> counts as absent; and MissingKey \<open>k\<close> is in the returned \<open>ErrorCollection\<close> provided
  \<open>FailFast\<close> is false or every key listed before \<open>k\<close> in \<open>Required\<close> is present.
\<close>

theorem null_presence_policy:
  assumes "um data = Inr dest" and "dest k = Some None" and "k \<in> set (Required o')"
  shows "(\<not> GlobalNullNotPresent o' \<and> k \<notin> set (NullNotPresent o') \<longrightarrow>
            present (prepareOptions o' v) dest k \<and>
            (\<forall>es. fst (UnmarshalX um ud data v (Some o')) = Some (ErrorCollection es) \<longrightarrow>
                  ValidationError MissingKey k \<notin> set es))
       \<and> (GlobalNullNotPresent o' \<or> k \<in> set (NullNotPresent o') \<longrightarrow>
            \<not> present (prepareOptions o' v) dest k \<and>
            (\<not> FailFast o' \<or>
             (\<forall>j \<in> set (takeWhile (\<lambda>j. j \<noteq> k) (Required o')). present (prepareOptions o' v) dest j) \<longrightarrow>
               (\<exists>es. UnmarshalX um ud data v (Some o') = (Some (ErrorCollection es), v) \<and>
                     ValidationError MissingKey k \<in> set es)))"
proof (intro conjI impI)
  assume a: "\<not> GlobalNullNotPresent o' \<and> k \<notin> set (NullNotPresent o')"
  with assms(2) show p: "present (prepareOptions o' v) dest k"
    by (simp add: present_prepareOptions)
  show "\<forall>es. fst (UnmarshalX um ud data v (Some o')) = Some (ErrorCollection es) \<longrightarrow>
                  ValidationError MissingKey k \<notin> set es"
  proof (intro allI impI)
    fix es
    assume "fst (UnmarshalX um ud data v (Some o')) = Some (ErrorCollection es)"
    then have es: "es = collect_errors (prepareOptions o' v) dest"
      using UnmarshalX_ErrorCollection [of um data dest ud v o' es] assms(1) by blast
    show "ValidationError MissingKey k \<notin> set es"
    proof
      assume "ValidationError MissingKey k \<in> set es"
      then have "ValidationError MissingKey k \<in> set (map (ValidationError MissingKey)
               (filter (\<lambda>k. \<not> present (prepareOptions o' v) dest k) (Required o'))
             @ map (ValidationError ForbiddenKey) (Forbidden o'))"
        unfolding es
        by (cases "FailFast o'")
          (auto simp: collect_errors_all collect_errors_first dest!: in_set_takeD)
      with p show False by auto
    qed
  qed
next
  assume a: "GlobalNullNotPresent o' \<or> k \<in> set (NullNotPresent o')"
  with assms(2) show np: "\<not> present (prepareOptions o' v) dest k"
    by (auto simp: present_prepareOptions)
  assume c: "\<not> FailFast o' \<or>
     (\<forall>j \<in> set (takeWhile (\<lambda>j. j \<noteq> k) (Required o')). present (prepareOptions o' v) dest j)"
  let ?es = "collect_errors (prepareOptions o' v) dest"
  have mem: "ValidationError MissingKey k \<in> set ?es"
  proof (cases "FailFast o'")
    case False
    with assms(3) np show ?thesis by (simp add: collect_errors_all)
  next
    case True
    with c have "\<forall>j \<in> set (takeWhile (\<lambda>j. j \<noteq> k) (Required o')). present (prepareOptions o' v) dest j"
      by blast
    from filter_first_failure [OF assms(3) np this] obtain rest where
      "filter (\<lambda>j. \<not> present (prepareOptions o' v) dest j) (Required o') = k # rest" by blast
    with True show ?thesis by (simp add: collect_errors_first)
  qed
  then have "?es \<noteq> []" by auto
  with assms(1) have "UnmarshalX um ud data v (Some o') = (Some (ErrorCollection ?es), v)"
    by (simp add: UnmarshalX_def Let_def)
  with mem show "\<exists>es. UnmarshalX um ud data v (Some o') = (Some (ErrorCollection es), v) \<and>
                     ValidationError MissingKey k \<in> set es" by blast
qed

theorem null_presence_policy_witness:
  "present (prepareOptions (zero_Options\<lparr>Required := [''k'']\<rparr>) (None :: json option))
     (store_members [(''k'', JNull)] Map.empty) ''k''
   \<and> \<not> present
         (prepareOptions (zero_Options\<lparr>NullNotPresent := [''k''], Required := [''k'']\<rparr>)
            (None :: json option))
         (store_members [(''k'', JNull)] Map.empty) ''k''
   \<and> (\<exists>es. UnmarshalX json_Unmarshal_map json_Unmarshal_raw
               (Valid (JObject [(''k'', JNull)])) None
               (Some (zero_Options\<lparr>NullNotPresent := [''k''], Required := [''k'']\<rparr>))
             = (Some (ErrorCollection es), None)
             \<and> ValidationError MissingKey ''k'' \<in> set es)
   \<and> \<not> present
         (prepareOptions (zero_Options\<lparr>GlobalNullNotPresent := True, Required := [''k'']\<rparr>)
            (None :: json option))
         (store_members [(''k'', JNull)] Map.empty) ''k''"
proof -
  let ?dest = "store_members [(''k'', JNull)] Map.empty"
  have h1: "json_Unmarshal_map (Valid (JObject [(''k'', JNull)])) = Inr ?dest"
    by simp
  have h2: "?dest ''k'' = Some None"
    by simp
  have a: "present (prepareOptions (zero_Options\<lparr>Required := [''k'']\<rparr>) (None :: json option))
             ?dest ''k''"
    using h1 h2
      null_presence_policy [where um = json_Unmarshal_map and ud = json_Unmarshal_raw and v = None
            and data = "Valid (JObject [(''k'', JNull)])" and dest = ?dest and k = "''k''"
            and o' = "zero_Options\<lparr>Required := [''k'']\<rparr>"]
    by (simp add: zero_Options_def)
  have b: "\<not> present
         (prepareOptions (zero_Options\<lparr>NullNotPresent := [''k''], Required := [''k'']\<rparr>)
            (None :: json option)) ?dest ''k''
     \<and> (\<exists>es. UnmarshalX json_Unmarshal_map json_Unmarshal_raw
               (Valid (JObject [(''k'', JNull)])) None
               (Some (zero_Options\<lparr>NullNotPresent := [''k''], Required := [''k'']\<rparr>))
             = (Some (ErrorCollection es), None)
             \<and> ValidationError MissingKey ''k'' \<in> set es)"
    using h1 h2
      null_presence_policy [where um = json_Unmarshal_map and ud = json_Unmarshal_raw and v = None
            and data = "Valid (JObject [(''k'', JNull)])" and dest = ?dest and k = "''k''"
            and o' = "zero_Options\<lparr>NullNotPresent := [''k''], Required := [''k'']\<rparr>"]
    by (simp add: zero_Options_def)
  have c: "\<not> present
         (prepareOptions (zero_Options\<lparr>GlobalNullNotPresent := True, Required := [''k'']\<rparr>)
            (None :: json option)) ?dest ''k''"
    using h1 h2
      null_presence_policy [where um = json_Unmarshal_map and ud = json_Unmarshal_raw and v = None
            and data = "Valid (JObject [(''k'', JNull)])" and dest = ?dest and k = "''k''"
            and o' = "zero_Options\<lparr>GlobalNullNotPresent := True, Required := [''k'']\<rparr>"]
    by (simp add: zero_Options_def)
  from a b c show ?thesis by blast
qed

section \<open>Collecting every violation\<close>

text \<open>
  C6. With \<open>FailFast\<close> false the collected errors are one MissingKey per key of \<open>Required\<close>
  that is not present, in the declaration order of \<open>Required\<close>, followed by the
  ForbiddenKey violations in the declaration order of \<open>Forbidden\<close>; \<open>UnmarshalX\<close> returns
  them when there is one at least. Read off the returned list, the MissingKey
  violations of the keys absent from the input object are exactly those keys of
  \<open>Required\<close>, in declaration order. A key in both lists gives both violations, the
  MissingKey one first.
\<close>

theorem UnmarshalX_collects_in_declaration_order:
  assumes "\<not> FailFast o'" and "um data = Inr dest"
    and "es = map (ValidationError MissingKey)
                (filter (\<lambda>k. \<not> present (prepareOptions o' v) dest k) (Required o'))
              @ map (ValidationError ForbiddenKey) (Forbidden o')"
  shows "UnmarshalX um ud data v (Some o') =
           (if es = [] then plain (ud data v) else (Some (ErrorCollection es), v))
       \<and> filter (\<lambda>e. Type e = MissingKey \<and> dest (Key e) = None) es =
           map (ValidationError MissingKey) (filter (\<lambda>k. dest k = None) (Required o'))"
proof -
  have "collect_errors (prepareOptions o' v) dest = es"
    using assms(1,3) by (simp add: collect_errors_all)
  with assms(2) have run: "UnmarshalX um ud data v (Some o') =
           (if es = [] then plain (ud data v) else (Some (ErrorCollection es), v))"
    by (simp add: UnmarshalX_def Let_def)
  have "(\<lambda>k. dest k = None \<and> \<not> present (prepareOptions o' v) dest k) = (\<lambda>k. dest k = None)"
    using present_absent [of dest _ "prepareOptions o' v"] by blast
  then have "filter (\<lambda>e. Type e = MissingKey \<and> dest (Key e) = None) es =
           map (ValidationError MissingKey) (filter (\<lambda>k. dest k = None) (Required o'))"
    unfolding assms(3) by (simp add: filter_map comp_def conj_commute)
  with run show ?thesis by blast
qed

theorem UnmarshalX_collects_in_declaration_order_witness:
  "UnmarshalX json_Unmarshal_map json_Unmarshal_raw
     (Valid (JObject [(''foo'', JNull), (''bar'', JNumber ''4444'')])) None
     (Some (zero_Options\<lparr>NullNotPresent := [''foo''], Required := [''foo'', ''baz''],
                         Forbidden := [''foo'', ''bar'']\<rparr>))
   = (Some (ErrorCollection
        [ValidationError MissingKey ''foo'', ValidationError MissingKey ''baz'',
         ValidationError ForbiddenKey ''foo'', ValidationError ForbiddenKey ''bar'']), None)"
proof -
  let ?o = "zero_Options\<lparr>NullNotPresent := [''foo''], Required := [''foo'', ''baz''],
                         Forbidden := [''foo'', ''bar'']\<rparr>"
  let ?dest = "store_members [(''foo'', JNull), (''bar'', JNumber ''4444'')] Map.empty"
  let ?es = "[ValidationError MissingKey ''foo'', ValidationError MissingKey ''baz'',
         ValidationError ForbiddenKey ''foo'', ValidationError ForbiddenKey ''bar'']"
  have h1: "\<not> FailFast ?o"
    by (simp add: zero_Options_def)
  have h2: "json_Unmarshal_map (Valid (JObject [(''foo'', JNull), (''bar'', JNumber ''4444'')]))
              = Inr ?dest"
    by simp
  have h3: "?es = map (ValidationError MissingKey)
                (filter (\<lambda>k. \<not> present (prepareOptions ?o (None :: json option)) ?dest k)
                   (Required ?o))
              @ map (ValidationError ForbiddenKey) (Forbidden ?o)"
    by (simp add: run_defs)
  show ?thesis
    using h1 h2 h3
      UnmarshalX_collects_in_declaration_order [where um = json_Unmarshal_map and ud = json_Unmarshal_raw and v = None
            and data = "Valid (JObject [(''foo'', JNull), (''bar'', JNumber ''4444'')])"
            and dest = ?dest and o' = ?o and es = ?es]
    by simp
qed

section \<open>Determinism\<close>

text \<open>
  C9. \<open>UnmarshalX\<close> reads nothing but its arguments and ranges over slices only, never over
  a Go map, so a run is a function of its arguments: two runs on the same bytes,
  options, destination and decoder give the same result. Moreover the violations do
  not depend on the destination or on its decoder: when one run on given bytes and
  options returns an \<open>ErrorCollection\<close>, every run on them returns the same violations
  in the same order.
\<close>

theorem UnmarshalX_deterministic:
  assumes "r = UnmarshalX um ud data v (Some o')"
    and "r' = UnmarshalX um ud' data v' (Some o')"
  shows "(fst r = Some (ErrorCollection es) \<longleftrightarrow> fst r' = Some (ErrorCollection es))
       \<and> (ud = ud' \<and> v = v' \<longrightarrow> r = r')"
proof (cases "um data")
  case (Inl err)
  with assms show ?thesis by (simp add: UnmarshalX_def)
next
  case (Inr dest)
  have "fst r = Some (ErrorCollection es) \<longleftrightarrow> fst r' = Some (ErrorCollection es)"
    unfolding assms
    using Inr UnmarshalX_ErrorCollection [of um data dest ud v o' es]
      UnmarshalX_ErrorCollection [of um data dest ud' v' o' es]
      prepareOptions_dest [of o' v v']
    by simp
  with assms show ?thesis by simp
qed

theorem UnmarshalX_deterministic_witness:
  "fst (UnmarshalX json_Unmarshal_map json_Unmarshal_raw
          (Valid (JObject [(''bar'', JNumber ''4444'')])) (Some (JString ''old''))
          (Some (zero_Options\<lparr>Required := [''foo''], Forbidden := [''bar'']\<rparr>)))
   = Some (ErrorCollection
        [ValidationError MissingKey ''foo'', ValidationError ForbiddenKey ''bar''])"
proof -
  let ?o = "zero_Options\<lparr>Required := [''foo''], Forbidden := [''bar'']\<rparr>"
  let ?data = "Valid (JObject [(''bar'', JNumber ''4444'')])"
  have first: "fst (UnmarshalX json_Unmarshal_map json_Unmarshal_raw ?data None (Some ?o))
     = Some (ErrorCollection
        [ValidationError MissingKey ''foo'', ValidationError ForbiddenKey ''bar''])"
    by (simp add: run_defs)
  show ?thesis
    using first
      UnmarshalX_deterministic [where um = json_Unmarshal_map and ud = json_Unmarshal_raw
            and ud' = json_Unmarshal_raw and data = ?data and o' = ?o
            and v = None and v' = "Some (JString ''old'')"
            and r = "UnmarshalX json_Unmarshal_map json_Unmarshal_raw ?data None (Some ?o)"
            and r' = "UnmarshalX json_Unmarshal_map json_Unmarshal_raw ?data
                        (Some (JString ''old'')) (Some ?o)"
            and es = "[ValidationError MissingKey ''foo'', ValidationError ForbiddenKey ''bar'']"]
    by blast
qed

section \<open>Options that are not nil, input that is not an object\<close>

text \<open>
  C10. The claim: with options that are not nil, every input whose top-level value is
  not an object fails in the decode into the string-keyed map and never reaches the
  typed decode. The input \<open>null\<close> is not an object, yet encoding/json decodes it into a
  map without an error, leaving the map nil; with \<open>Options{}\<close> no violation is collected
  and the typed decode runs and succeeds.
\<close>

theorem UnmarshalX_null_reaches_decode:
  "UnmarshalX json_Unmarshal_map json_Unmarshal_raw (Valid JNull) None (Some zero_Options)
   = (None, Some JNull)"
  by (simp add: run_defs)

text \<open>
  C10, as amended. With any options that are not nil, \<open>Options{}\<close> included, and any
  input whose top-level value is an array, a string, a number or a boolean,
  \<open>UnmarshalX\<close> returns the \<open>UnmarshalTypeError\<close> of the decode into the string-keyed map and
  does not touch the destination, while with nil options it is the plain decode; so
  wherever the plain decode of such an input succeeds, \<open>Options{}\<close> and nil options
  differ.
\<close>

theorem UnmarshalX_non_object_rejected:
  assumes "x \<noteq> JNull" and "\<forall>kvs. x \<noteq> JObject kvs"
  shows "(\<exists>kind. UnmarshalX json_Unmarshal_map ud (Valid x) v (Some o') =
                   (Some (JsonError (UnmarshalTypeError kind)), v))
       \<and> UnmarshalX json_Unmarshal_map ud (Valid x) v None = plain (ud (Valid x) v)
       \<and> (fst (ud (Valid x) v) = None \<longrightarrow>
            UnmarshalX json_Unmarshal_map ud (Valid x) v (Some zero_Options) \<noteq>
            UnmarshalX json_Unmarshal_map ud (Valid x) v None)"
  using assms by (cases x) (simp_all add: UnmarshalX_def plain_def)

theorem UnmarshalX_non_object_rejected_witness:
  "UnmarshalX json_Unmarshal_map json_Unmarshal_raw (Valid (JArray [JNumber ''1''])) None
     (Some zero_Options)
   \<noteq> UnmarshalX json_Unmarshal_map json_Unmarshal_raw (Valid (JArray [JNumber ''1''])) None None"
proof -
  have h1: "JArray [JNumber ''1''] \<noteq> JNull"
    by simp
  have h2: "\<forall>kvs. JArray [JNumber ''1''] \<noteq> JObject kvs"
    by simp
  have h3: "fst (json_Unmarshal_raw (Valid (JArray [JNumber ''1''])) None) = None"
    by simp
  show ?thesis
    using h3 UnmarshalX_non_object_rejected [OF h1 h2, of json_Unmarshal_raw None] by blast
qed

end
